theory Spec2Isabelle
  imports Main "HOL-Library.Word" "HOL-Library.Multiset"
begin

section \<open>JavaScript strings\<close>

text \<open>
  A JavaScript string is a sequence of UTF-16 code units; \<open>s.length\<close> counts code
  units, so it is \<open>length\<close> of the list. ASCII literals of the source are written with
  \<open>ascii\<close>.
\<close>

type_synonym cu = "16 word"
type_synonym jsstring = "cu list"

definition ch :: "char \<Rightarrow> cu" where
  "ch c = of_char c"

definition ascii :: "string \<Rightarrow> jsstring" where
  "ascii s = map ch s"

text \<open>
  The character classes of the regular expression. \<open>\d\<close> is \<open>[0-9]\<close>, \<open>\w\<close> is
  \<open>[A-Za-z0-9_]\<close>, and \<open>\s\<close> is the WhiteSpace and LineTerminator code points of
  ECMAScript, the same set that \<open>String.prototype.trim\<close> strips.
\<close>

definition is_digit :: "cu \<Rightarrow> bool" where
  "is_digit c = (0x30 \<le> c \<and> c \<le> 0x39)"

definition is_upper :: "cu \<Rightarrow> bool" where
  "is_upper c = (0x41 \<le> c \<and> c \<le> 0x5A)"

definition is_lower :: "cu \<Rightarrow> bool" where
  "is_lower c = (0x61 \<le> c \<and> c \<le> 0x7A)"

definition is_alpha :: "cu \<Rightarrow> bool" where
  "is_alpha c = (is_upper c \<or> is_lower c)"

definition is_word :: "cu \<Rightarrow> bool" where
  "is_word c = (is_alpha c \<or> is_digit c \<or> c = 0x5F)"

definition is_space :: "cu \<Rightarrow> bool" where
  "is_space c =
     ((0x09 \<le> c \<and> c \<le> 0x0D) \<or> c = 0x20 \<or> c = 0xA0 \<or> c = 0x1680 \<or>
      (0x2000 \<le> c \<and> c \<le> 0x200A) \<or> c = 0x2028 \<or> c = 0x2029 \<or> c = 0x202F \<or>
      c = 0x205F \<or> c = 0x3000 \<or> c = 0xFEFF)"

text \<open>\<open>s.trim()\<close>: white space is removed from both ends.\<close>

definition trim :: "jsstring \<Rightarrow> jsstring" where
  "trim s = rev (dropWhile is_space (rev (dropWhile is_space s)))"

section \<open>The PII pattern\<close>

text \<open>
  \<^verbatim>\<open>const risky = /(\+?\d[\d\s\-()]{8,})|([\w.+-]+@[\w-]+\.[a-z]{2,})|(t\.me\/)/i;\<close>

  The pattern uses alternation, sequencing, \<open>?\<close>, and the quantifiers \<open>+\<close>, \<open>{2,}\<close> and
  \<open>{8,}\<close>, each applied to a single character class; groups capture only, and
  \<open>test\<close> does not read captures. An atom is the set of code units it accepts.

  The flag \<open>i\<close> is set and the flag \<open>u\<close> is not, so a code unit is compared after
  Canonicalize, which upper-cases it but never maps a code unit of 128 or more to one
  below 128. Every letter of the pattern is ASCII, so a letter atom accepts exactly its
  two ASCII cases, \<open>[a-z]\<close> accepts \<open>[A-Za-z]\<close>, and \<open>\w\<close>, \<open>\d\<close>, \<open>\s\<close> and the
  punctuation are unchanged. \<open>lit_i\<close> and \<open>is_alpha\<close> below are these case-closed atoms.
\<close>

datatype regex =
    Atom "cu \<Rightarrow> bool"
  | Seq regex regex
  | Alt regex regex
  | Opt regex
  | AtLeast nat "cu \<Rightarrow> bool"

definition lit :: "char \<Rightarrow> cu \<Rightarrow> bool" where
  "lit a c = (c = ch a)"

definition lit_i :: "char \<Rightarrow> char \<Rightarrow> cu \<Rightarrow> bool" where
  "lit_i lower upper c = (c = ch lower \<or> c = ch upper)"

definition phone_tail :: "cu \<Rightarrow> bool" where
  "phone_tail c = (is_digit c \<or> is_space c \<or> c = ch CHR ''-'' \<or> c = ch CHR ''('' \<or> c = ch CHR '')'')"

definition email_local :: "cu \<Rightarrow> bool" where
  "email_local c = (is_word c \<or> c = ch CHR ''.'' \<or> c = ch CHR ''+'' \<or> c = ch CHR ''-'')"

definition email_domain :: "cu \<Rightarrow> bool" where
  "email_domain c = (is_word c \<or> c = ch CHR ''-'')"

definition phone_re :: regex where
  "phone_re = Seq (Opt (Atom (lit CHR ''+''))) (Seq (Atom is_digit) (AtLeast 8 phone_tail))"

definition email_re :: regex where
  "email_re =
     Seq (AtLeast 1 email_local)
       (Seq (Atom (lit CHR ''@''))
         (Seq (AtLeast 1 email_domain)
           (Seq (Atom (lit CHR ''.'')) (AtLeast 2 is_alpha))))"

definition tme_re :: regex where
  "tme_re =
     Seq (Atom (lit_i CHR ''t'' CHR ''T''))
       (Seq (Atom (lit CHR ''.''))
         (Seq (Atom (lit_i CHR ''m'' CHR ''M''))
           (Seq (Atom (lit_i CHR ''e'' CHR ''E'')) (Atom (lit CHR ''/'')))))"

definition risky :: regex where
  "risky = Alt phone_re (Alt email_re tme_re)"

text \<open>
  Backtracking matching, as a list of successes: \<open>rems r s\<close> lists, in the order the
  matcher tries them, the remainders of \<open>s\<close> after each way of matching \<open>r\<close> at its
  front. The quantifiers are greedy.
\<close>

fun rep :: "nat \<Rightarrow> (cu \<Rightarrow> bool) \<Rightarrow> jsstring \<Rightarrow> jsstring list" where
  "rep n P [] = (if n = 0 then [[]] else [])"
| "rep n P (c # cs) =
     (if P c then rep (n - 1) P cs else []) @ (if n = 0 then [c # cs] else [])"

fun rems :: "regex \<Rightarrow> jsstring \<Rightarrow> jsstring list" where
  "rems (Atom P) s = (case s of [] \<Rightarrow> [] | c # cs \<Rightarrow> if P c then [cs] else [])"
| "rems (Seq a b) s = concat (map (rems b) (rems a s))"
| "rems (Alt a b) s = rems a s @ rems b s"
| "rems (Opt a) s = rems a s @ [s]"
| "rems (AtLeast n P) s = rep n P s"

text \<open>
  \<open>risky.test(text)\<close>: the pattern has no \<open>g\<close> or \<open>y\<close> flag, so every call starts at
  index 0 and tries each start position in turn, the end of the string included.
\<close>

fun regex_test :: "regex \<Rightarrow> jsstring \<Rightarrow> bool" where
  "regex_test r [] = (rems r [] \<noteq> [])"
| "regex_test r (c # cs) = (rems r (c # cs) \<noteq> [] \<or> regex_test r cs)"

definition looksLikePII :: "jsstring \<Rightarrow> bool" where
  "looksLikePII text = regex_test risky text"

text \<open>
  The language of a pattern: the strings it matches as a whole. It is what the matcher
  is compared with; \<open>rems\<close> and \<open>regex_test\<close> above are what runs.
\<close>

fun lang :: "regex \<Rightarrow> jsstring set" where
  "lang (Atom P) = {[c] | c. P c}"
| "lang (Seq a b) = {u @ v | u v. u \<in> lang a \<and> v \<in> lang b}"
| "lang (Alt a b) = lang a \<union> lang b"
| "lang (Opt a) = insert [] (lang a)"
| "lang (AtLeast n P) = {u. n \<le> length u \<and> (\<forall>c \<in> set u. P c)}"

text \<open>
  What the three alternatives find, in words: a digit followed by at least eight
  characters that are digits, white space, hyphens or parentheses; a local part, \<open>@\<close>,
  a domain, a dot and at least two letters; the invite-link prefix \<open>t.me/\<close> with its
  letters in either case.
\<close>

definition phone_like :: "jsstring \<Rightarrow> bool" where
  "phone_like s \<longleftrightarrow>
     (\<exists>p d run q. s = p @ d # run @ q \<and> is_digit d \<and> 8 \<le> length run \<and> (\<forall>c \<in> set run. phone_tail c))"

definition email_like :: "jsstring \<Rightarrow> bool" where
  "email_like s \<longleftrightarrow>
     (\<exists>p l dm tld q. s = p @ l @ ch CHR ''@'' # dm @ ch CHR ''.'' # tld @ q
        \<and> l \<noteq> [] \<and> (\<forall>c \<in> set l. email_local c)
        \<and> dm \<noteq> [] \<and> (\<forall>c \<in> set dm. email_domain c)
        \<and> 2 \<le> length tld \<and> (\<forall>c \<in> set tld. is_alpha c))"

definition invite_like :: "jsstring \<Rightarrow> bool" where
  "invite_like s \<longleftrightarrow>
     (\<exists>p t m e q. s = p @ [t, ch CHR ''.'', m, e, ch CHR ''/''] @ q
        \<and> (t = ch CHR ''t'' \<or> t = ch CHR ''T'')
        \<and> (m = ch CHR ''m'' \<or> m = ch CHR ''M'')
        \<and> (e = ch CHR ''e'' \<or> e = ch CHR ''E''))"

text \<open>
  Case-insensitivity is stated with ASCII upper-casing: two texts that differ only in the
  case of ASCII letters have the same upper-cased form. \<open>atoms_respect f r\<close> says that
  no atom of \<open>r\<close> tells \<open>c\<close> from \<open>f c\<close>.
\<close>

definition ascii_upper :: "cu \<Rightarrow> cu" where
  "ascii_upper c = (if is_lower c then c - 0x20 else c)"

fun atoms_respect :: "(cu \<Rightarrow> cu) \<Rightarrow> regex \<Rightarrow> bool" where
  "atoms_respect f (Atom P) = (\<forall>c. P (f c) = P c)"
| "atoms_respect f (Seq a b) = (atoms_respect f a \<and> atoms_respect f b)"
| "atoms_respect f (Alt a b) = (atoms_respect f a \<and> atoms_respect f b)"
| "atoms_respect f (Opt a) = atoms_respect f a"
| "atoms_respect f (AtLeast n P) = (\<forall>c. P (f c) = P c)"

section \<open>Values of a request body\<close>

text \<open>
  The body parsers (\<open>express.json\<close>, \<open>express.urlencoded\<close>) produce JSON-shaped values;
  a field that is absent reads as \<open>undefined\<close>. An object is the list of its own
  properties, looked up with \<open>map_of\<close>.

  A number is represented by the numeral that \<open>Number.prototype.toString\<close> prints for it:
  \<open>1234567890\<close>, \<open>0.5\<close>, \<open>-3\<close>, \<open>1e+21\<close>, \<open>Infinity\<close>. Printing a double is the
  language's own conversion; the handler sees a number only through that numeral and
  through its truthiness. The falsy numbers are zero, which prints \<open>0\<close> with either
  sign, and \<open>NaN\<close>.
\<close>

datatype jsval =
    JUndefined
  | JNull
  | JBool bool
  | JNum jsstring
  | JStr jsstring
  | JArr "jsval list"
  | JObj "(jsstring \<times> jsval) list"

text \<open>\<open>req.body?.text\<close>: \<open>undefined\<close> unless the body is an object with that own property.\<close>

fun get_prop :: "jsval \<Rightarrow> jsstring \<Rightarrow> jsval" where
  "get_prop (JObj kvs) k = (case map_of kvs k of None \<Rightarrow> JUndefined | Some v \<Rightarrow> v)"
| "get_prop _ k = JUndefined"

text \<open>Truthiness, as \<open>||\<close> tests it.\<close>

fun truthy :: "jsval \<Rightarrow> bool" where
  "truthy JUndefined = False"
| "truthy JNull = False"
| "truthy (JBool b) = b"
| "truthy (JNum printed) = (printed \<noteq> ascii ''0'' \<and> printed \<noteq> ascii ''NaN'')"
| "truthy (JStr s) = (s \<noteq> [])"
| "truthy (JArr xs) = True"
| "truthy (JObj kvs) = True"

fun join :: "jsstring list \<Rightarrow> jsstring" where
  "join [] = []"
| "join [x] = x"
| "join (x # y # ys) = x @ ch CHR '','' # join (y # ys)"

text \<open>
  \<open>v.toString()\<close>, with \<open>None\<close> for a thrown TypeError. A parsed value is never a
  function, so an object with an own property \<open>toString\<close> cannot be converted; any other
  object is \<open>[object Object]\<close>. An array joins its elements with commas, \<open>null\<close> and
  \<open>undefined\<close> elements as the empty string.
\<close>

fun js_toString :: "jsval \<Rightarrow> jsstring option" where
  "js_toString JUndefined = None"
| "js_toString JNull = None"
| "js_toString (JBool b) = Some (if b then ascii ''true'' else ascii ''false'')"
| "js_toString (JNum printed) = Some printed"
| "js_toString (JStr s) = Some s"
| "js_toString (JArr xs) =
     map_option join
       (those (map (\<lambda>x. if x = JUndefined \<or> x = JNull then Some [] else js_toString x) xs))"
| "js_toString (JObj kvs) =
     (if ascii ''toString'' \<in> fst ` set kvs then None else Some (ascii ''[object Object]''))"

section \<open>The submission store and the intake handler\<close>

type_synonym objectid = nat

record doc =
  doc_id :: objectid
  doc_text :: jsstring
  doc_lang :: jsstring
  doc_status :: jsstring
  doc_created_at :: int
  doc_ip_hash :: "jsstring option"
  doc_ua :: jsstring

text \<open>
  The process state is the cached collection handle \<open>col\<close>; the collection is the list
  of its documents in the order the database holds them.
\<close>

record state =
  col :: bool
  collection :: "doc list"

text \<open>
  What one request takes from outside the program: whether \<open>connect\<close> succeeds, whether
  the calls after it (\<open>createIndex\<close> twice and the ping) succeed, the clock
  (\<open>new Date()\<close>, milliseconds), the \<open>_id\<close> the driver generates, and whether
  \<open>insertOne\<close> and \<open>find\<close> succeed.
\<close>

record env =
  connect_ok :: bool
  setup_ok :: bool
  now :: int
  fresh_id :: objectid
  insert_ok :: bool
  find_ok :: bool

record request =
  body :: jsval
  x_forwarded_for :: "jsstring option"
  remote_address :: "jsstring option"
  user_agent :: "jsstring option"

datatype error = InvalidLength | PiiDetected | DbError

text \<open>
  The HTTP rendering: 400 \<open>Invalid length\<close>, 400 \<open>PII detected\<close>, 500 \<open>DB error\<close>, and
  201 with \<open>insertedId.toString()\<close> as the whole body.
\<close>

fun http_status :: "error + objectid \<Rightarrow> nat" where
  "http_status (Inl InvalidLength) = 400"
| "http_status (Inl PiiDetected) = 400"
| "http_status (Inl DbError) = 500"
| "http_status (Inr i) = 201"

text \<open>
  \<open>getCollection\<close>: \<open>True\<close> when it resolves, \<open>False\<close> when it throws. \<open>col\<close> is
  assigned after \<open>connect\<close> and before the indexes are created, so a failure of the
  later calls leaves it set.
\<close>

definition getCollection :: "jsstring option \<Rightarrow> env \<Rightarrow> state \<Rightarrow> bool \<times> state" where
  "getCollection mongodb_uri e st =
     (if col st then (True, st)
      else if mongodb_uri = None \<or> mongodb_uri = Some [] then (False, st)
      else if \<not> connect_ok e then (False, st)
      else if \<not> setup_ok e then (False, st\<lparr>col := True\<rparr>)
      else (True, st\<lparr>col := True\<rparr>))"

text \<open>\<open>(req.body?.text || '').toString().trim()\<close>\<close>

definition text_of :: "request \<Rightarrow> jsstring option" where
  "text_of req =
     (let v = get_prop (body req) (ascii ''text'')
      in map_option trim (js_toString (if truthy v then v else JStr [])))"

text \<open>\<open>(req.body?.lang === 'ru') ? 'ru' : 'en'\<close>\<close>

definition lang_of :: "request \<Rightarrow> jsstring" where
  "lang_of req = (if get_prop (body req) (ascii ''lang'') = JStr (ascii ''ru'') then ascii ''ru'' else ascii ''en'')"

text \<open>
  \<open>(req.headers['x-forwarded-for'] || '').toString().split(',')[0].trim() ||
  req.socket.remoteAddress || ''\<close>
\<close>

definition client_ip :: "request \<Rightarrow> jsstring" where
  "client_ip req =
     (let first = trim (takeWhile (\<lambda>c. c \<noteq> ch CHR '','')
                    (case x_forwarded_for req of None \<Rightarrow> [] | Some h \<Rightarrow> h))
      in if first \<noteq> [] then first
         else (case remote_address req of None \<Rightarrow> [] | Some a \<Rightarrow> a))"

text \<open>
  \<open>ip ? crypto.createHash('sha256').update(ip).digest('hex').slice(0, 16) : null\<close>.
  The digest is the library's; it is the parameter \<open>sha256_hex\<close>.
\<close>

definition ip_hash_of :: "(jsstring \<Rightarrow> jsstring) \<Rightarrow> jsstring \<Rightarrow> jsstring option" where
  "ip_hash_of sha256_hex ip = (if ip \<noteq> [] then Some (take 16 (sha256_hex ip)) else None)"

text \<open>\<open>String(req.get('user-agent') || '').slice(0, 180)\<close>\<close>

definition ua_of :: "request \<Rightarrow> jsstring" where
  "ua_of req = take 180 (case user_agent req of None \<Rightarrow> [] | Some u \<Rightarrow> u)"

text \<open>
  \<open>app.post('/api/submit')\<close>. Everything runs inside \<open>try\<close>; whatever is thrown
  (no collection, a failed conversion, a failed insert) is answered with \<open>DB error\<close>.
\<close>

definition submit ::
  "(jsstring \<Rightarrow> jsstring) \<Rightarrow> jsstring option \<Rightarrow> env \<Rightarrow> state \<Rightarrow> request \<Rightarrow> (error + objectid) \<times> state" where
  "submit sha256_hex mongodb_uri e st req =
     (case getCollection mongodb_uri e st of
        (False, st') \<Rightarrow> (Inl DbError, st')
      | (True, st') \<Rightarrow>
          (case text_of req of
             None \<Rightarrow> (Inl DbError, st')
           | Some txt \<Rightarrow>
               if length txt < 10 \<or> length txt > 2000 then (Inl InvalidLength, st')
               else if looksLikePII txt then (Inl PiiDetected, st')
               else
                 let d = \<lparr>doc_id = fresh_id e,
                          doc_text = txt,
                          doc_lang = lang_of req,
                          doc_status = ascii ''pending'',
                          doc_created_at = now e,
                          doc_ip_hash = ip_hash_of sha256_hex (client_ip req),
                          doc_ua = ua_of req\<rparr>
                 in if insert_ok e
                    then (Inr (doc_id d), st'\<lparr>collection := collection st' @ [d]\<rparr>)
                    else (Inl DbError, st')))"

section \<open>The listing\<close>

text \<open>
  \<open>find({}).sort({ created_at: -1 }).limit(50).project({ text: 1, lang: 1, status: 1,
  created_at: 1 })\<close>. The sort key is \<open>created_at\<close> alone, newest first; documents with
  equal keys stay in the order the database yields them. A projection keeps \<open>_id\<close>
  unless it is excluded.
\<close>

record item =
  item_id :: objectid
  item_text :: jsstring
  item_lang :: jsstring
  item_status :: jsstring
  item_created_at :: int

definition project :: "doc \<Rightarrow> item" where
  "project d =
     \<lparr>item_id = doc_id d, item_text = doc_text d, item_lang = doc_lang d,
      item_status = doc_status d, item_created_at = doc_created_at d\<rparr>"

definition find_latest :: "doc list \<Rightarrow> item list" where
  "find_latest ds = map project (take 50 (sort_key (\<lambda>d. - doc_created_at d) ds))"

definition admin_list :: "jsstring option \<Rightarrow> env \<Rightarrow> state \<Rightarrow> (error + item list) \<times> state" where
  "admin_list mongodb_uri e st =
     (case getCollection mongodb_uri e st of
        (False, st') \<Rightarrow> (Inl DbError, st')
      | (True, st') \<Rightarrow>
          if find_ok e then (Inr (find_latest (collection st')), st') else (Inl DbError, st'))"

section \<open>The SQLite helper\<close>

text \<open>
  \<open>db.js\<close>: the table \<open>submissions\<close> with its \<open>NOT NULL\<close> and \<open>CHECK\<close> constraints, the
  insert that names \<open>text\<close>, \<open>lang\<close>, \<open>ip_hash\<close> and \<open>ua\<close> and leaves \<open>id\<close>, \<open>status\<close> and
  \<open>created_at\<close> to their defaults, and the listing.
\<close>

record row =
  row_id :: nat
  row_text :: jsstring
  row_lang :: jsstring
  row_status :: jsstring
  row_ip_hash :: "jsstring option"
  row_ua :: "jsstring option"
  row_created_at :: int

record payload =
  p_text :: "jsstring option"
  p_lang :: "jsstring option"
  p_ip_hash :: "jsstring option"
  p_ua :: "jsstring option"

text \<open>The table with the \<open>AUTOINCREMENT\<close> counter (the largest id handed out so far).\<close>

record sqlite =
  seq :: nat
  rows :: "row list"

definition lang_check :: "jsstring \<Rightarrow> bool" where
  "lang_check l = (l = ascii ''en'' \<or> l = ascii ''ru'')"

definition status_check :: "jsstring \<Rightarrow> bool" where
  "status_check s = (s = ascii ''pending'' \<or> s = ascii ''approved'' \<or> s = ascii ''rejected'')"

definition submissions_check :: "row \<Rightarrow> bool" where
  "submissions_check r = (lang_check (row_lang r) \<and> status_check (row_status r))"

datatype sql_error = ConstraintFailed

text \<open>
  \<open>insertSubmission(payload)\<close>; \<open>clock\<close> is \<open>datetime('now')\<close>. A row that violates a
  constraint is not inserted and the statement throws.
\<close>

definition insertSubmission :: "int \<Rightarrow> sqlite \<Rightarrow> payload \<Rightarrow> (sql_error + nat) \<times> sqlite" where
  "insertSubmission clock db p =
     (case (p_text p, p_lang p) of
        (Some t, Some l) \<Rightarrow>
          (let r = \<lparr>row_id = seq db + 1, row_text = t, row_lang = l,
                    row_status = ascii ''pending'', row_ip_hash = p_ip_hash p,
                    row_ua = p_ua p, row_created_at = clock\<rparr>
           in if submissions_check r
              then (Inr (row_id r), db\<lparr>seq := row_id r, rows := rows db @ [r]\<rparr>)
              else (Inl ConstraintFailed, db))
      | _ \<Rightarrow> (Inl ConstraintFailed, db))"

text \<open>
  The tables \<open>db.js\<close> can produce: it creates the table empty and its only statement
  that writes is the insert.
\<close>

inductive table_reachable :: "sqlite \<Rightarrow> bool" where
  created: "table_reachable \<lparr>seq = 0, rows = []\<rparr>"
| inserted: "table_reachable db \<Longrightarrow> table_reachable (snd (insertSubmission clock db p))"




section \<open>Orderings of a listing\<close>



section \<open>Example inputs\<close>

text \<open>
  Concrete inputs for the evaluations below: a fresh process with the database
  reachable, and a request carrying a text, the language \<open>ru\<close> and identity headers.
  \<open>zero_digest\<close> stands in for the digest where a concrete one is needed.
\<close>

definition example_uri :: "jsstring option" where
  "example_uri = Some (ascii ''mongodb://localhost:27017'')"

definition example_env :: env where
  "example_env =
     \<lparr>connect_ok = True, setup_ok = True, now = 1700000000000, fresh_id = 7,
      insert_ok = True, find_ok = True\<rparr>"

definition example_state :: state where
  "example_state = \<lparr>col = False, collection = []\<rparr>"

definition example_request :: "jsval \<Rightarrow> request" where
  "example_request v =
     \<lparr>body = JObj [(ascii ''text'', v), (ascii ''lang'', JStr (ascii ''ru''))],
      x_forwarded_for = Some (ascii ''203.0.113.9, 10.0.0.1''),
      remote_address = Some (ascii ''10.0.0.1''),
      user_agent = Some (ascii ''Mozilla/5.0'')\<rparr>"

definition zero_digest :: "jsstring \<Rightarrow> jsstring" where
  "zero_digest ip = replicate 64 (ch CHR ''0'')"



definition published_doc :: doc where
  "published_doc =
     \<lparr>doc_id = 3, doc_text = ascii ''Saw something odd downtown today'',
      doc_lang = ascii ''en'', doc_status = ascii ''published'',
      doc_created_at = 1600000000000, doc_ip_hash = None, doc_ua = []\<rparr>"

definition example_payload :: payload where
  "example_payload =
     \<lparr>p_text = Some (ascii ''Saw something odd downtown today''), p_lang = Some (ascii ''en''),
      p_ip_hash = None, p_ua = None\<rparr>"

definition example_table :: sqlite where
  "example_table =
     snd (insertSubmission 9 (snd (insertSubmission 5 (snd (insertSubmission 5
       \<lparr>seq = 0, rows = []\<rparr> example_payload)) example_payload)) example_payload)"

section \<open>Basic facts about the handler\<close>


lemma getCollection_collection:
  "collection (snd (getCollection mongodb_uri e st)) = collection st"
  by (simp add: getCollection_def)

lemma getCollection_cases:
  obtains (ok) st' where "getCollection mongodb_uri e st = (True, st')"
      and "collection st' = collection st"
  | (fail) st' where "getCollection mongodb_uri e st = (False, st')"
      and "collection st' = collection st"
  using getCollection_collection [of mongodb_uri e st]
  by (cases "getCollection mongodb_uri e st") (case_tac a; simp)

section \<open>Intake validation\<close>





text \<open>
  Claim C5. A request that intake accepts appends exactly one document, whose status is
  \<open>pending\<close> and whose \<open>created_at\<close> is the clock of that request; a request that is
  answered with an error leaves the collection as it was. The same holds for
  \<open>insertSubmission\<close> of the SQLite helper, where both values are the column defaults.
  So no path stores a record with another initial status.
\<close>

theorem accepted_starts_pending:
  "(case submit sha256_hex mongodb_uri e st req of
      (Inr i, st2) \<Rightarrow>
        (\<exists>d. collection st2 = collection st @ [d] \<and> doc_id d = i
             \<and> doc_status d = ascii ''pending'' \<and> doc_created_at d = now e)
    | (Inl err, st2) \<Rightarrow> collection st2 = collection st)
   \<and> (case insertSubmission clock db p of
      (Inr i, db2) \<Rightarrow>
        (\<exists>r. rows db2 = rows db @ [r] \<and> row_id r = i
             \<and> row_status r = ascii ''pending'' \<and> row_created_at r = clock)
    | (Inl err, db2) \<Rightarrow> db2 = db)"
proof
  show "case submit sha256_hex mongodb_uri e st req of
      (Inr i, st2) \<Rightarrow>
        (\<exists>d. collection st2 = collection st @ [d] \<and> doc_id d = i
             \<and> doc_status d = ascii ''pending'' \<and> doc_created_at d = now e)
    | (Inl err, st2) \<Rightarrow> collection st2 = collection st"
  proof (cases rule: getCollection_cases [of mongodb_uri e st])
    case (ok st')
    then show ?thesis
      by (simp add: submit_def Let_def split: option.split)
  next
    case (fail st')
    then show ?thesis by (simp add: submit_def)
  qed
  show "case insertSubmission clock db p of
      (Inr i, db2) \<Rightarrow>
        (\<exists>r. rows db2 = rows db @ [r] \<and> row_id r = i
             \<and> row_status r = ascii ''pending'' \<and> row_created_at r = clock)
    | (Inl err, db2) \<Rightarrow> db2 = db"
    by (simp add: insertSubmission_def Let_def split: option.split)
qed

theorem accepted_starts_pending_witness:
  "fst (submit zero_digest example_uri example_env example_state
          (example_request (JStr (ascii ''Saw something odd downtown today'')))) = Inr 7
   \<and> (\<exists>d. collection (snd (submit zero_digest example_uri example_env example_state
          (example_request (JStr (ascii ''Saw something odd downtown today'')))))
          = collection example_state @ [d]
        \<and> doc_id d = 7 \<and> doc_status d = ascii ''pending'' \<and> doc_created_at d = now example_env)"
proof -
  obtain r st2 where eq: "submit zero_digest example_uri example_env example_state
          (example_request (JStr (ascii ''Saw something odd downtown today''))) = (r, st2)"
    by (cases "submit zero_digest example_uri example_env example_state
          (example_request (JStr (ascii ''Saw something odd downtown today'')))")
  have "fst (submit zero_digest example_uri example_env example_state
          (example_request (JStr (ascii ''Saw something odd downtown today'')))) = Inr 7"
    by code_simp
  with eq have r: "r = Inr 7" by simp
  show ?thesis
    using accepted_starts_pending [where sha256_hex = zero_digest and mongodb_uri = example_uri
          and e = example_env and st = example_state
          and req = "example_request (JStr (ascii ''Saw something odd downtown today''))"]
    by (simp add: eq r)
qed

lemma submit_response:
  "fst (submit sha256_hex mongodb_uri e st req) =
     (if \<not> fst (getCollection mongodb_uri e st) then Inl DbError
      else case text_of req of
        None \<Rightarrow> Inl DbError
      | Some txt \<Rightarrow>
          if length txt < 10 \<or> length txt > 2000 then Inl InvalidLength
          else if looksLikePII txt then Inl PiiDetected
          else if insert_ok e then Inr (fresh_id e) else Inl DbError)"
  by (cases rule: getCollection_cases [of mongodb_uri e st])
     (simp_all add: submit_def Let_def split: option.split)

text \<open>
  Claim C10. As stated the claim fails: a text that is not a string is rejected with
  \<open>InvalidLength\<close> only when it is falsy. Amended: the handler answers every request.
  Without the collection the answer is \<open>DB error\<close>. With it, an absent, \<open>null\<close> or
  otherwise falsy text is replaced by the empty string and answered \<open>InvalidLength\<close>; a
  truthy text that is not a string is converted with \<open>toString\<close>, trimmed and validated
  like any other text, so it may be accepted; and a value whose conversion throws is
  answered \<open>DB error\<close> by the handler's \<open>catch\<close>.
\<close>

theorem text_coerced:
  "(\<not> fst (getCollection mongodb_uri e st) \<longrightarrow>
      fst (submit sha256_hex mongodb_uri e st req) = Inl DbError)
   \<and> (fst (getCollection mongodb_uri e st)
        \<and> \<not> truthy (get_prop (body req) (ascii ''text'')) \<longrightarrow>
      fst (submit sha256_hex mongodb_uri e st req) = Inl InvalidLength)
   \<and> (fst (getCollection mongodb_uri e st)
        \<and> truthy (get_prop (body req) (ascii ''text''))
        \<and> js_toString (get_prop (body req) (ascii ''text'')) = None \<longrightarrow>
      fst (submit sha256_hex mongodb_uri e st req) = Inl DbError)
   \<and> (\<forall>s. fst (getCollection mongodb_uri e st)
        \<and> truthy (get_prop (body req) (ascii ''text''))
        \<and> js_toString (get_prop (body req) (ascii ''text'')) = Some s \<longrightarrow>
      fst (submit sha256_hex mongodb_uri e st req) =
        (if length (trim s) < 10 \<or> 2000 < length (trim s) then Inl InvalidLength
         else if looksLikePII (trim s) then Inl PiiDetected
         else if insert_ok e then Inr (fresh_id e)
         else Inl DbError))"
  by (auto simp add: submit_response text_of_def trim_def)

text \<open>
  The body \<open>{"text": {}, "lang": "ru"}\<close>: the text is converted to \<open>[object Object]\<close>,
  15 code units, passes both checks and is stored.
\<close>

theorem text_coerced_counterexample:
  "fst (submit zero_digest example_uri example_env example_state (example_request (JObj []))) = Inr 7
   \<and> map doc_text (collection (snd (submit zero_digest example_uri example_env example_state
        (example_request (JObj []))))) = [ascii ''[object Object]'']"
  by code_simp

text \<open>
  Evaluations: no connection string; \<open>null\<close>; an object with an own \<open>toString\<close>; the
  number 1234567890, ten digits that the pattern takes for a phone number; the number
  \<open>1e21\<close>, printed \<open>1e+21\<close>, five code units; and an array of two strings, joined
  with a comma and accepted.
\<close>

theorem text_coerced_witness:
  "\<not> fst (getCollection None example_env example_state)
   \<and> fst (submit zero_digest None example_env example_state (example_request JNull)) = Inl DbError
   \<and> fst (getCollection example_uri example_env example_state)
   \<and> \<not> truthy (get_prop (body (example_request JNull)) (ascii ''text''))
   \<and> fst (submit zero_digest example_uri example_env example_state (example_request JNull))
       = Inl InvalidLength
   \<and> truthy (get_prop (body (example_request (JObj [(ascii ''toString'', JNull)]))) (ascii ''text''))
   \<and> js_toString (get_prop (body (example_request (JObj [(ascii ''toString'', JNull)])))
        (ascii ''text'')) = None
   \<and> fst (submit zero_digest example_uri example_env example_state
        (example_request (JObj [(ascii ''toString'', JNull)]))) = Inl DbError
   \<and> truthy (get_prop (body (example_request (JNum (ascii ''1234567890'')))) (ascii ''text''))
   \<and> fst (submit zero_digest example_uri example_env example_state
        (example_request (JNum (ascii ''1234567890'')))) = Inl PiiDetected
   \<and> truthy (get_prop (body (example_request (JNum (ascii ''1e+21'')))) (ascii ''text''))
   \<and> fst (submit zero_digest example_uri example_env example_state
        (example_request (JNum (ascii ''1e+21'')))) = Inl InvalidLength
   \<and> js_toString (get_prop (body (example_request
        (JArr [JStr (ascii ''Saw something''), JStr (ascii ''odd downtown'')]))) (ascii ''text''))
       = Some (ascii ''Saw something,odd downtown'')
   \<and> fst (submit zero_digest example_uri example_env example_state
        (example_request (JArr [JStr (ascii ''Saw something''), JStr (ascii ''odd downtown'')])))
       = Inr (fresh_id example_env)"
proof -
  have h0: "fst (getCollection example_uri example_env example_state)"
    by code_simp
  have h1: "\<not> truthy (get_prop (body (example_request JNull)) (ascii ''text''))"
    by code_simp
  have h2: "truthy (get_prop (body (example_request (JObj [(ascii ''toString'', JNull)]))) (ascii ''text''))"
    by code_simp
  have h3: "js_toString (get_prop (body (example_request (JObj [(ascii ''toString'', JNull)])))
      (ascii ''text'')) = None"
    by code_simp
  have h4: "truthy (get_prop (body (example_request (JNum (ascii ''1234567890'')))) (ascii ''text''))"
    by code_simp
  have h5: "js_toString (get_prop (body (example_request (JNum (ascii ''1234567890'')))) (ascii ''text''))
      = Some (ascii ''1234567890'')"
    by code_simp
  have h6: "\<not> (length (trim (ascii ''1234567890'')) < 10 \<or> 2000 < length (trim (ascii ''1234567890'')))"
    by code_simp
  have h7: "looksLikePII (trim (ascii ''1234567890''))"
    by code_simp
  have h8: "\<not> fst (getCollection None example_env example_state)"
    by code_simp
  have h9: "truthy (get_prop (body (example_request (JNum (ascii ''1e+21'')))) (ascii ''text''))"
    by code_simp
  have h10: "js_toString (get_prop (body (example_request (JNum (ascii ''1e+21'')))) (ascii ''text''))
      = Some (ascii ''1e+21'')"
    by code_simp
  have h11: "length (trim (ascii ''1e+21'')) < 10"
    by code_simp
  have h12: "truthy (get_prop (body (example_request
        (JArr [JStr (ascii ''Saw something''), JStr (ascii ''odd downtown'')]))) (ascii ''text''))"
    by code_simp
  have h13: "js_toString (get_prop (body (example_request
        (JArr [JStr (ascii ''Saw something''), JStr (ascii ''odd downtown'')]))) (ascii ''text''))
       = Some (ascii ''Saw something,odd downtown'')"
    by code_simp
  have h14: "\<not> (length (trim (ascii ''Saw something,odd downtown'')) < 10
        \<or> 2000 < length (trim (ascii ''Saw something,odd downtown'')))"
    by code_simp
  have h15: "\<not> looksLikePII (trim (ascii ''Saw something,odd downtown''))"
    by code_simp
  have h16: "insert_ok example_env"
    by code_simp
  show ?thesis
    using text_coerced [where sha256_hex = zero_digest and mongodb_uri = None
        and e = example_env and st = example_state and req = "example_request JNull"]
      text_coerced [where sha256_hex = zero_digest and mongodb_uri = example_uri
        and e = example_env and st = example_state and req = "example_request JNull"]
      text_coerced [where sha256_hex = zero_digest and mongodb_uri = example_uri
        and e = example_env and st = example_state
        and req = "example_request (JObj [(ascii ''toString'', JNull)])"]
      text_coerced [where sha256_hex = zero_digest and mongodb_uri = example_uri
        and e = example_env and st = example_state
        and req = "example_request (JNum (ascii ''1234567890''))"]
      text_coerced [where sha256_hex = zero_digest and mongodb_uri = example_uri
        and e = example_env and st = example_state
        and req = "example_request (JNum (ascii ''1e+21''))"]
      text_coerced [where sha256_hex = zero_digest and mongodb_uri = example_uri
        and e = example_env and st = example_state
        and req = "example_request (JArr [JStr (ascii ''Saw something''), JStr (ascii ''odd downtown'')])"]
      h0 h1 h2 h3 h4 h5 h6 h7 h8 h9 h10 h11 h12 h13 h14 h15 h16
    by simp
qed

section \<open>Language\<close>

lemma submit_lang:
  "d \<in> set (collection (snd (submit sha256_hex mongodb_uri e st req))) \<Longrightarrow>
   d \<in> set (collection st) \<or> doc_lang d = lang_of req"
  by (cases rule: getCollection_cases [of mongodb_uri e st])
     (auto simp add: submit_def Let_def split: option.splits if_splits)

lemma submit_stores_lang:
  "case submit sha256_hex mongodb_uri e st req of
      (Inr i, st2) \<Rightarrow>
        (\<exists>d. collection st2 = collection st @ [d] \<and> doc_id d = i \<and> doc_lang d = lang_of req)
    | (Inl err, st2) \<Rightarrow> collection st2 = collection st"
proof (cases rule: getCollection_cases [of mongodb_uri e st])
  case (ok st')
  then show ?thesis
    by (simp add: submit_def Let_def split: option.split)
next
  case (fail st')
  then show ?thesis by (simp add: submit_def)
qed

lemma insertSubmission_stores_lang:
  "case insertSubmission clock db p of
      (Inr i, db2) \<Rightarrow>
        (\<exists>r. rows db2 = rows db @ [r] \<and> row_id r = i \<and> p_lang p = Some (row_lang r)
             \<and> (row_lang r = ascii ''en'' \<or> row_lang r = ascii ''ru''))
    | (Inl err, db2) \<Rightarrow> db2 = db"
  by (simp add: insertSubmission_def Let_def submissions_check_def lang_check_def
      split: option.split)

text \<open>
  Claim C8. The declared language is \<open>ru\<close> exactly when the \<open>lang\<close> field is the string
  \<open>ru\<close>, and \<open>en\<close> for every other value, an absent field included. The document that
  an accepted request appends carries that language: \<open>ru\<close> when the field is the string
  \<open>ru\<close>, \<open>en\<close> otherwise. \<open>insertSubmission\<close> stores the language it is given and only
  if it is \<open>en\<close> or \<open>ru\<close>; anything else fails the \<open>CHECK\<close> and leaves the table as it
  was. So a collection or table whose records all have \<open>lang\<close> in \<open>{en, ru}\<close> keeps that
  property.
\<close>

theorem lang_normalized:
  "(get_prop (body req) (ascii ''lang'') = JStr (ascii ''ru'') \<longrightarrow> lang_of req = ascii ''ru'')
   \<and> (get_prop (body req) (ascii ''lang'') \<noteq> JStr (ascii ''ru'') \<longrightarrow> lang_of req = ascii ''en'')
   \<and> (case submit sha256_hex mongodb_uri e st req of
        (Inr i, st2) \<Rightarrow>
          (\<exists>d. collection st2 = collection st @ [d] \<and> doc_id d = i
               \<and> doc_lang d = (if get_prop (body req) (ascii ''lang'') = JStr (ascii ''ru'')
                                then ascii ''ru'' else ascii ''en''))
      | (Inl err, st2) \<Rightarrow> collection st2 = collection st)
   \<and> ((\<forall>d \<in> set (collection st). doc_lang d = ascii ''en'' \<or> doc_lang d = ascii ''ru'') \<longrightarrow>
       (\<forall>d \<in> set (collection (snd (submit sha256_hex mongodb_uri e st req))).
          doc_lang d = ascii ''en'' \<or> doc_lang d = ascii ''ru''))
   \<and> (case insertSubmission clock db p of
        (Inr i, db2) \<Rightarrow>
          (\<exists>r. rows db2 = rows db @ [r] \<and> row_id r = i \<and> p_lang p = Some (row_lang r)
               \<and> (row_lang r = ascii ''en'' \<or> row_lang r = ascii ''ru''))
      | (Inl err, db2) \<Rightarrow> db2 = db)
   \<and> ((\<forall>r \<in> set (rows db). row_lang r = ascii ''en'' \<or> row_lang r = ascii ''ru'') \<longrightarrow>
       (\<forall>r \<in> set (rows (snd (insertSubmission clock db p))).
          row_lang r = ascii ''en'' \<or> row_lang r = ascii ''ru''))"
proof (intro conjI impI ballI)
  show "case submit sha256_hex mongodb_uri e st req of
        (Inr i, st2) \<Rightarrow>
          (\<exists>d. collection st2 = collection st @ [d] \<and> doc_id d = i
               \<and> doc_lang d = (if get_prop (body req) (ascii ''lang'') = JStr (ascii ''ru'')
                                then ascii ''ru'' else ascii ''en''))
      | (Inl err, st2) \<Rightarrow> collection st2 = collection st"
    by (rule submit_stores_lang [unfolded lang_of_def])
  show "case insertSubmission clock db p of
        (Inr i, db2) \<Rightarrow>
          (\<exists>r. rows db2 = rows db @ [r] \<and> row_id r = i \<and> p_lang p = Some (row_lang r)
               \<and> (row_lang r = ascii ''en'' \<or> row_lang r = ascii ''ru''))
      | (Inl err, db2) \<Rightarrow> db2 = db"
    by (rule insertSubmission_stores_lang)
next
  fix d
  assume inv: "\<forall>d \<in> set (collection st). doc_lang d = ascii ''en'' \<or> doc_lang d = ascii ''ru''"
    and d: "d \<in> set (collection (snd (submit sha256_hex mongodb_uri e st req)))"
  from submit_lang [OF d] inv show "doc_lang d = ascii ''en'' \<or> doc_lang d = ascii ''ru''"
    by (auto simp add: lang_of_def)
next
  fix r
  assume inv: "\<forall>r \<in> set (rows db). row_lang r = ascii ''en'' \<or> row_lang r = ascii ''ru''"
    and r: "r \<in> set (rows (snd (insertSubmission clock db p)))"
  then show "row_lang r = ascii ''en'' \<or> row_lang r = ascii ''ru''"
    by (auto simp add: insertSubmission_def Let_def submissions_check_def lang_check_def
        split: option.splits if_splits)
qed (simp_all add: lang_of_def)

text \<open>
  Evaluations: the same text declared \<open>ru\<close> and declared \<open>RU\<close> is stored as \<open>ru\<close> and
  as \<open>en\<close>; a payload with \<open>lang\<close> \<open>en\<close> is stored as \<open>en\<close>, and one with \<open>de\<close> is
  refused.
\<close>

theorem lang_normalized_witness:
  "get_prop (body (example_request (JStr (ascii ''Saw something odd downtown today''))))
      (ascii ''lang'') = JStr (ascii ''ru'')
   \<and> lang_of (example_request (JStr (ascii ''Saw something odd downtown today''))) = ascii ''ru''
   \<and> map doc_lang (collection (snd (submit zero_digest example_uri example_env example_state
        (example_request (JStr (ascii ''Saw something odd downtown today'')))))) = [ascii ''ru'']
   \<and> get_prop (body ((example_request JNull)
        \<lparr>body := JObj [(ascii ''text'', JStr (ascii ''Saw something odd downtown today'')),
                       (ascii ''lang'', JStr (ascii ''RU''))]\<rparr>)) (ascii ''lang'') \<noteq> JStr (ascii ''ru'')
   \<and> lang_of ((example_request JNull)
        \<lparr>body := JObj [(ascii ''text'', JStr (ascii ''Saw something odd downtown today'')),
                       (ascii ''lang'', JStr (ascii ''RU''))]\<rparr>) = ascii ''en''
   \<and> map doc_lang (collection (snd (submit zero_digest example_uri example_env example_state
        ((example_request JNull)
        \<lparr>body := JObj [(ascii ''text'', JStr (ascii ''Saw something odd downtown today'')),
                       (ascii ''lang'', JStr (ascii ''RU''))]\<rparr>)))) = [ascii ''en'']
   \<and> map row_lang (rows (snd (insertSubmission 5 \<lparr>seq = 0, rows = []\<rparr> example_payload)))
       = [ascii ''en'']
   \<and> snd (insertSubmission 5 \<lparr>seq = 0, rows = []\<rparr> (example_payload\<lparr>p_lang := Some (ascii ''de'')\<rparr>))
       = \<lparr>seq = 0, rows = []\<rparr>"
proof -
  let ?ru = "example_request (JStr (ascii ''Saw something odd downtown today''))"
  let ?en = "(example_request JNull)
        \<lparr>body := JObj [(ascii ''text'', JStr (ascii ''Saw something odd downtown today'')),
                       (ascii ''lang'', JStr (ascii ''RU''))]\<rparr>"
  have h1: "get_prop (body ?ru) (ascii ''lang'') = JStr (ascii ''ru'')"
    by code_simp
  have h2: "get_prop (body ?en) (ascii ''lang'') \<noteq> JStr (ascii ''ru'')"
    by code_simp
  have a1: "fst (submit zero_digest example_uri example_env example_state ?ru) = Inr 7"
    by code_simp
  have a2: "fst (submit zero_digest example_uri example_env example_state ?en) = Inr 7"
    by code_simp
  have c: "collection example_state = []"
    by (simp add: example_state_def)
  have b1: "fst (insertSubmission 5 \<lparr>seq = 0, rows = []\<rparr> example_payload) = Inr 1"
    by code_simp
  have b2: "fst (insertSubmission 5 \<lparr>seq = 0, rows = []\<rparr> (example_payload\<lparr>p_lang := Some (ascii ''de'')\<rparr>))
      = Inl ConstraintFailed"
    by code_simp
  note t1 = lang_normalized [where sha256_hex = zero_digest and mongodb_uri = example_uri
      and e = example_env and st = example_state and req = ?ru
      and clock = 5 and db = "\<lparr>seq = 0, rows = []\<rparr>" and p = example_payload]
  note t2 = lang_normalized [where sha256_hex = zero_digest and mongodb_uri = example_uri
      and e = example_env and st = example_state and req = ?en
      and clock = 5 and db = "\<lparr>seq = 0, rows = []\<rparr>" and p = "example_payload\<lparr>p_lang := Some (ascii ''de'')\<rparr>"]
  note t1_stored = t1 [THEN conjunct2, THEN conjunct2, THEN conjunct1]
  note t2_stored = t2 [THEN conjunct2, THEN conjunct2, THEN conjunct1]
  note t1_row = t1 [THEN conjunct2, THEN conjunct2, THEN conjunct2, THEN conjunct2, THEN conjunct1]
  note t2_row = t2 [THEN conjunct2, THEN conjunct2, THEN conjunct2, THEN conjunct2, THEN conjunct1]
  have s1: "map doc_lang (collection (snd (submit zero_digest example_uri example_env example_state ?ru)))
      = [ascii ''ru'']"
  proof (cases "submit zero_digest example_uri example_env example_state ?ru")
    case (Pair r st2)
    with a1 have "r = Inr 7" by simp
    with t1_stored Pair h1 c show ?thesis by auto
  qed
  have s2: "map doc_lang (collection (snd (submit zero_digest example_uri example_env example_state ?en)))
      = [ascii ''en'']"
  proof (cases "submit zero_digest example_uri example_env example_state ?en")
    case (Pair r st2)
    with a2 have "r = Inr 7" by simp
    with t2_stored Pair h2 c show ?thesis by auto
  qed
  have s3: "map row_lang (rows (snd (insertSubmission 5 \<lparr>seq = 0, rows = []\<rparr> example_payload)))
       = [ascii ''en'']"
  proof (cases "insertSubmission 5 \<lparr>seq = 0, rows = []\<rparr> example_payload")
    case (Pair r db2)
    with b1 have "r = Inr 1" by simp
    with t1_row Pair obtain x where "rows db2 = [x]" "p_lang example_payload = Some (row_lang x)"
      by auto
    moreover have "p_lang example_payload = Some (ascii ''en'')"
      by (simp add: example_payload_def)
    ultimately show ?thesis using Pair by simp
  qed
  have s4: "snd (insertSubmission 5 \<lparr>seq = 0, rows = []\<rparr> (example_payload\<lparr>p_lang := Some (ascii ''de'')\<rparr>))
       = \<lparr>seq = 0, rows = []\<rparr>"
  proof (cases "insertSubmission 5 \<lparr>seq = 0, rows = []\<rparr> (example_payload\<lparr>p_lang := Some (ascii ''de'')\<rparr>)")
    case (Pair r db2)
    with b2 have "r = Inl ConstraintFailed" by simp
    with t2_row Pair show ?thesis by simp
  qed
  from t1 h1 have l1: "lang_of ?ru = ascii ''ru''"
    by blast
  from t2 h2 have l2: "lang_of ?en = ascii ''en''"
    by blast
  show ?thesis
    using h1 h2 l1 l2 s1 s2 s3 s4 by simp
qed

section \<open>Submitter identity\<close>

text \<open>
  Claim C6. The fingerprint is \<open>null\<close> exactly when the client address is empty, which is
  when the first entry of \<open>X-Forwarded-For\<close> is absent or blank and the socket has no
  remote address. Otherwise it is the first 16 characters of the hex digest of the
  address, 16 characters long when the digest has its 64. Requests with the same
  address get the same fingerprint.
\<close>

theorem fingerprint_null_or_digest:
  "(ip_hash_of sha256_hex (client_ip req) = None \<longleftrightarrow> client_ip req = [])
   \<and> (client_ip req = [] \<longleftrightarrow>
        trim (takeWhile (\<lambda>c. c \<noteq> ch CHR '','')
              (case x_forwarded_for req of None \<Rightarrow> [] | Some h \<Rightarrow> h)) = []
        \<and> (remote_address req = None \<or> remote_address req = Some []))
   \<and> (client_ip req \<noteq> [] \<longrightarrow>
        ip_hash_of sha256_hex (client_ip req) = Some (take 16 (sha256_hex (client_ip req))))
   \<and> (client_ip req \<noteq> [] \<and> length (sha256_hex (client_ip req)) = 64 \<longrightarrow>
        (\<exists>h. ip_hash_of sha256_hex (client_ip req) = Some h \<and> length h = 16))
   \<and> (client_ip req = client_ip req' \<longrightarrow>
        ip_hash_of sha256_hex (client_ip req) = ip_hash_of sha256_hex (client_ip req'))"
  by (auto simp add: ip_hash_of_def client_ip_def Let_def split: option.splits)

theorem fingerprint_null_or_digest_witness:
  "client_ip (example_request JNull) = ascii ''203.0.113.9''
   \<and> client_ip (example_request JNull) \<noteq> []
   \<and> length (zero_digest (client_ip (example_request JNull))) = 64
   \<and> ip_hash_of zero_digest (client_ip (example_request JNull)) = Some (ascii ''0000000000000000'')
   \<and> client_ip (example_request JNull) = client_ip (example_request (JBool True))
   \<and> ip_hash_of zero_digest (client_ip (example_request JNull))
       = ip_hash_of zero_digest (client_ip (example_request (JBool True)))
   \<and> client_ip \<lparr>body = JNull, x_forwarded_for = None, remote_address = None, user_agent = None\<rparr> = []
   \<and> ip_hash_of zero_digest
        (client_ip \<lparr>body = JNull, x_forwarded_for = None, remote_address = None, user_agent = None\<rparr>)
       = None"
proof -
  have h1: "client_ip (example_request JNull) = ascii ''203.0.113.9''"
    by code_simp
  have h2: "length (zero_digest (client_ip (example_request JNull))) = 64"
    by code_simp
  have h3: "take 16 (zero_digest (client_ip (example_request JNull))) = ascii ''0000000000000000''"
    by code_simp
  have h4: "client_ip \<lparr>body = JNull, x_forwarded_for = None, remote_address = None, user_agent = None\<rparr> = []"
    by code_simp
  have h5: "client_ip (example_request JNull) \<noteq> []"
    by code_simp
  have h6: "client_ip (example_request JNull) = client_ip (example_request (JBool True))"
    by code_simp
  show ?thesis
    using fingerprint_null_or_digest [where sha256_hex = zero_digest
        and req = "example_request JNull" and req' = "example_request (JBool True)"]
      fingerprint_null_or_digest [where sha256_hex = zero_digest
        and req = "\<lparr>body = JNull, x_forwarded_for = None, remote_address = None, user_agent = None\<rparr>"]
      h1 h2 h3 h4 h5 h6
    by simp
qed

section \<open>The listing and what it shows\<close>

lemma map_insort_key:
  "map f (insort_key (\<lambda>x. k (f x)) x xs) = insort_key k (f x) (map f xs)"
  by (induction xs) simp_all

lemma map_sort_key:
  "map f (sort_key (\<lambda>x. k (f x)) xs) = sort_key k (map f xs)"
  by (induction xs) (simp_all add: map_insort_key)

lemma find_latest_project:
  "find_latest ds = take 50 (sort_key (\<lambda>i. - item_created_at i) (map project ds))"
proof -
  have k: "(\<lambda>d. - doc_created_at d) = (\<lambda>d. - item_created_at (project d))"
    by (simp add: project_def)
  show ?thesis
    unfolding find_latest_def k take_map [symmetric]
    using map_sort_key [of project "\<lambda>i. - item_created_at i" ds] by simp
qed

text \<open>
  Claim C9. The answer to a submission depends on the body alone, not on the identity
  headers nor on the digest, and an accepting answer is the new id. The listing is a
  function of the projected documents: two collections that differ only in \<open>ip_hash\<close>
  and \<open>ua\<close> give the same listing.
\<close>

theorem identity_not_exposed:
  "(body req = body req' \<longrightarrow>
      fst (submit sha256_hex mongodb_uri e st req) = fst (submit sha256_hex' mongodb_uri e st req'))
   \<and> (\<forall>i. fst (submit sha256_hex mongodb_uri e st req) = Inr i \<longrightarrow> i = fresh_id e)
   \<and> (map project ds = map project ds' \<longrightarrow> find_latest ds = find_latest ds')
   \<and> (col st = col st' \<and> map project (collection st) = map project (collection st') \<longrightarrow>
        fst (admin_list mongodb_uri e st) = fst (admin_list mongodb_uri e st'))"
proof (intro conjI impI allI)
  assume "body req = body req'"
  then show "fst (submit sha256_hex mongodb_uri e st req) = fst (submit sha256_hex' mongodb_uri e st req')"
    by (simp add: submit_response text_of_def)
next
  fix i assume "fst (submit sha256_hex mongodb_uri e st req) = Inr i"
  then show "i = fresh_id e"
    by (auto simp add: submit_response split: if_splits option.splits)
next
  assume "map project ds = map project ds'"
  then show "find_latest ds = find_latest ds'"
    by (simp add: find_latest_project)
next
  assume a: "col st = col st' \<and> map project (collection st) = map project (collection st')"
  then have "find_latest (collection st) = find_latest (collection st')"
    by (simp add: find_latest_project)
  with a show "fst (admin_list mongodb_uri e st) = fst (admin_list mongodb_uri e st')"
    by (simp add: admin_list_def getCollection_def)
qed

theorem identity_not_exposed_witness:
  "body (example_request (JStr (ascii ''Saw something odd downtown today'')))
     = body ((example_request (JStr (ascii ''Saw something odd downtown today'')))
              \<lparr>x_forwarded_for := None, remote_address := Some (ascii ''198.51.100.4''), user_agent := None\<rparr>)
   \<and> fst (submit zero_digest example_uri example_env example_state
            (example_request (JStr (ascii ''Saw something odd downtown today''))))
     = fst (submit id example_uri example_env example_state
            ((example_request (JStr (ascii ''Saw something odd downtown today'')))
              \<lparr>x_forwarded_for := None, remote_address := Some (ascii ''198.51.100.4''), user_agent := None\<rparr>))
   \<and> fst (submit zero_digest example_uri example_env example_state
            (example_request (JStr (ascii ''Saw something odd downtown today'')))) = Inr (fresh_id example_env)
   \<and> map project
        [\<lparr>doc_id = 1, doc_text = ascii ''Saw something odd downtown today'', doc_lang = ascii ''en'',
          doc_status = ascii ''pending'', doc_created_at = 10,
          doc_ip_hash = Some (ascii ''0000000000000000''), doc_ua = ascii ''Mozilla/5.0''\<rparr>]
     = map project
        [\<lparr>doc_id = 1, doc_text = ascii ''Saw something odd downtown today'', doc_lang = ascii ''en'',
          doc_status = ascii ''pending'', doc_created_at = 10,
          doc_ip_hash = None, doc_ua = ascii ''curl/8.0''\<rparr>]
   \<and> find_latest
        [\<lparr>doc_id = 1, doc_text = ascii ''Saw something odd downtown today'', doc_lang = ascii ''en'',
          doc_status = ascii ''pending'', doc_created_at = 10,
          doc_ip_hash = Some (ascii ''0000000000000000''), doc_ua = ascii ''Mozilla/5.0''\<rparr>]
     = find_latest
        [\<lparr>doc_id = 1, doc_text = ascii ''Saw something odd downtown today'', doc_lang = ascii ''en'',
          doc_status = ascii ''pending'', doc_created_at = 10,
          doc_ip_hash = None, doc_ua = ascii ''curl/8.0''\<rparr>]"
proof -
  have h1: "body (example_request (JStr (ascii ''Saw something odd downtown today'')))
     = body ((example_request (JStr (ascii ''Saw something odd downtown today'')))
              \<lparr>x_forwarded_for := None, remote_address := Some (ascii ''198.51.100.4''), user_agent := None\<rparr>)"
    by simp
  have h2: "fst (submit zero_digest example_uri example_env example_state
            (example_request (JStr (ascii ''Saw something odd downtown today'')))) = Inr 7"
    by code_simp
  have h3: "map project
        [\<lparr>doc_id = 1, doc_text = ascii ''Saw something odd downtown today'', doc_lang = ascii ''en'',
          doc_status = ascii ''pending'', doc_created_at = 10,
          doc_ip_hash = Some (ascii ''0000000000000000''), doc_ua = ascii ''Mozilla/5.0''\<rparr>]
     = map project
        [\<lparr>doc_id = 1, doc_text = ascii ''Saw something odd downtown today'', doc_lang = ascii ''en'',
          doc_status = ascii ''pending'', doc_created_at = 10,
          doc_ip_hash = None, doc_ua = ascii ''curl/8.0''\<rparr>]"
    by (simp add: project_def)
  show ?thesis
    using identity_not_exposed [where sha256_hex = zero_digest and sha256_hex' = id
        and mongodb_uri = example_uri and e = example_env and st = example_state
        and req = "example_request (JStr (ascii ''Saw something odd downtown today''))"
        and req' = "(example_request (JStr (ascii ''Saw something odd downtown today'')))
              \<lparr>x_forwarded_for := None, remote_address := Some (ascii ''198.51.100.4''), user_agent := None\<rparr>"
        and ds = "[\<lparr>doc_id = 1, doc_text = ascii ''Saw something odd downtown today'', doc_lang = ascii ''en'',
          doc_status = ascii ''pending'', doc_created_at = 10,
          doc_ip_hash = Some (ascii ''0000000000000000''), doc_ua = ascii ''Mozilla/5.0''\<rparr>]"
        and ds' = "[\<lparr>doc_id = 1, doc_text = ascii ''Saw something odd downtown today'', doc_lang = ascii ''en'',
          doc_status = ascii ''pending'', doc_created_at = 10,
          doc_ip_hash = None, doc_ua = ascii ''curl/8.0''\<rparr>]"]
      h1 h2 h3
    by metis
qed

section \<open>Statuses the stores admit\<close>

lemma submit_keeps_records:
  "\<exists>new. collection (snd (submit sha256_hex mongodb_uri e st req)) = collection st @ new"
proof (cases rule: getCollection_cases [of mongodb_uri e st])
  case (ok st')
  then show ?thesis
    by (simp add: submit_def Let_def split: option.split)
next
  case (fail st')
  then show ?thesis by (simp add: submit_def)
qed

lemma find_latest_all:
  "length ds \<le> 50 \<Longrightarrow> mset (find_latest ds) = mset (map project ds)"
  by (simp add: find_latest_def)

lemma find_latest_subset: "set (find_latest ds) \<subseteq> project ` set ds"
proof -
  have "set (take 50 (sort_key (\<lambda>d. - doc_created_at d) ds)) \<subseteq> set ds"
    using set_take_subset [of 50 "sort_key (\<lambda>d. - doc_created_at d) ds"] by simp
  then show ?thesis
    unfolding find_latest_def by auto
qed

lemma insertSubmission_rows:
  "r \<in> set (rows (snd (insertSubmission clock db p))) \<Longrightarrow>
   r \<in> set (rows db) \<or> (row_status r = ascii ''pending'' \<and> submissions_check r)"
  by (auto simp add: insertSubmission_def Let_def split: option.splits if_splits)

lemma table_reachable_pending:
  "table_reachable db \<Longrightarrow> r \<in> set (rows db) \<Longrightarrow>
   row_status r = ascii ''pending'' \<and> submissions_check r"
proof (induction arbitrary: r rule: table_reachable.induct)
  case created
  then show ?case by simp
next
  case (inserted db clock p)
  from insertSubmission_rows [OF inserted.prems] inserted.IH show ?case
    by blast
qed

text \<open>
  Claim C4. As stated the claim fails for the SQLite table: its \<open>CHECK\<close> on \<open>status\<close>
  lists \<open>pending\<close>, \<open>approved\<close> and \<open>rejected\<close>, so a row in status \<open>published\<close> is
  refused. Amended: the MongoDB collection of \<open>server.js\<close> has no constraint on status:
  intake only appends to it, leaving every record already there as it is, whatever its
  status, and the listing returns records as they are stored, all of them while there
  are at most 50. The SQLite table admits a row exactly when its \<open>lang\<close> is \<open>en\<close> or
  \<open>ru\<close> and its status is \<open>pending\<close>, \<open>approved\<close> or \<open>rejected\<close>; and every row of a
  table that \<open>db.js\<close> has produced is in status \<open>pending\<close>.
\<close>

theorem status_admission:
  "(\<exists>new. collection (snd (submit sha256_hex mongodb_uri e st req)) = collection st @ new)
   \<and> set (find_latest ds) \<subseteq> project ` set ds
   \<and> (length ds \<le> 50 \<longrightarrow> mset (find_latest ds) = mset (map project ds))
   \<and> (submissions_check r \<longleftrightarrow>
        (row_lang r = ascii ''en'' \<or> row_lang r = ascii ''ru'')
        \<and> (row_status r = ascii ''pending'' \<or> row_status r = ascii ''approved''
            \<or> row_status r = ascii ''rejected''))
   \<and> (table_reachable db \<longrightarrow>
        (\<forall>x \<in> set (rows db). row_status x = ascii ''pending'' \<and> submissions_check x))"
proof -
  have 1: "\<exists>new. collection (snd (submit sha256_hex mongodb_uri e st req)) = collection st @ new"
    by (rule submit_keeps_records)
  have 2: "set (find_latest ds) \<subseteq> project ` set ds"
    by (rule find_latest_subset)
  have 3: "length ds \<le> 50 \<longrightarrow> mset (find_latest ds) = mset (map project ds)"
    using find_latest_all by blast
  have 4: "submissions_check r \<longleftrightarrow>
        (row_lang r = ascii ''en'' \<or> row_lang r = ascii ''ru'')
        \<and> (row_status r = ascii ''pending'' \<or> row_status r = ascii ''approved''
            \<or> row_status r = ascii ''rejected'')"
    by (simp add: submissions_check_def lang_check_def status_check_def)
  have 5: "table_reachable db \<longrightarrow>
        (\<forall>x \<in> set (rows db). row_status x = ascii ''pending'' \<and> submissions_check x)"
    using table_reachable_pending by blast
  show ?thesis
    by (intro conjI 1 2 3 4 5)
qed

text \<open>
  A row that differs from an admitted one only in its status, \<open>published\<close> for
  \<open>approved\<close>, violates the constraints of the table.
\<close>

theorem status_admission_counterexample:
  "submissions_check
     \<lparr>row_id = 1, row_text = ascii ''Saw something odd downtown today'', row_lang = ascii ''en'',
      row_status = ascii ''approved'', row_ip_hash = None, row_ua = None, row_created_at = 5\<rparr>
   \<and> \<not> submissions_check
     \<lparr>row_id = 1, row_text = ascii ''Saw something odd downtown today'', row_lang = ascii ''en'',
      row_status = ascii ''published'', row_ip_hash = None, row_ua = None, row_created_at = 5\<rparr>"
  by code_simp

text \<open>
  Evaluations: a collection holding a published record still holds it, unchanged and in
  first place, after an accepted submission, and the listing shows both records; the
  table after three inserts is one that \<open>db.js\<close> produces, and its rows are pending.
\<close>

theorem status_admission_witness:
  "collection (snd (submit zero_digest example_uri example_env
        (example_state\<lparr>collection := [published_doc]\<rparr>)
        (example_request (JStr (ascii ''Saw something odd downtown today'')))))
     = [published_doc,
        \<lparr>doc_id = 7, doc_text = ascii ''Saw something odd downtown today'', doc_lang = ascii ''ru'',
         doc_status = ascii ''pending'', doc_created_at = 1700000000000,
         doc_ip_hash = Some (ascii ''0000000000000000''), doc_ua = ascii ''Mozilla/5.0''\<rparr>]
   \<and> length (collection (snd (submit zero_digest example_uri example_env
        (example_state\<lparr>collection := [published_doc]\<rparr>)
        (example_request (JStr (ascii ''Saw something odd downtown today'')))))) \<le> 50
   \<and> map item_status (find_latest (collection (snd (submit zero_digest example_uri example_env
        (example_state\<lparr>collection := [published_doc]\<rparr>)
        (example_request (JStr (ascii ''Saw something odd downtown today'')))))))
     = [ascii ''pending'', ascii ''published'']
   \<and> table_reachable example_table
   \<and> map row_status (rows example_table) = [ascii ''pending'', ascii ''pending'', ascii ''pending'']
   \<and> list_all submissions_check (rows example_table)"
proof -
  let ?st2 = "snd (submit zero_digest example_uri example_env
        (example_state\<lparr>collection := [published_doc]\<rparr>)
        (example_request (JStr (ascii ''Saw something odd downtown today''))))"
  note t = status_admission [where sha256_hex = zero_digest and mongodb_uri = example_uri
      and e = example_env and st = "example_state\<lparr>collection := [published_doc]\<rparr>"
      and req = "example_request (JStr (ascii ''Saw something odd downtown today''))"
      and ds = "collection ?st2" and db = example_table]
  have c: "collection ?st2
     = [published_doc,
        \<lparr>doc_id = 7, doc_text = ascii ''Saw something odd downtown today'', doc_lang = ascii ''ru'',
         doc_status = ascii ''pending'', doc_created_at = 1700000000000,
         doc_ip_hash = Some (ascii ''0000000000000000''), doc_ua = ascii ''Mozilla/5.0''\<rparr>]"
    by code_simp
  have l: "length (collection ?st2) \<le> 50"
    unfolding c by simp
  have f: "map item_status (find_latest (collection ?st2)) = [ascii ''pending'', ascii ''published'']"
    by code_simp
  have r: "table_reachable example_table"
    unfolding example_table_def by (intro table_reachable.intros)
  have n: "length (rows example_table) = 3"
    by code_simp
  from t r have p: "\<forall>x \<in> set (rows example_table). row_status x = ascii ''pending'' \<and> submissions_check x"
    by blast
  have s: "map row_status (rows example_table) = replicate (length (rows example_table)) (ascii ''pending'')"
  proof -
    have "map row_status (rows example_table) = map (\<lambda>x. ascii ''pending'') (rows example_table)"
      using p by simp
    then show ?thesis
      by (simp only: map_replicate_const)
  qed
  show ?thesis
    using c l f r p s n by (simp add: list_all_iff numeral_3_eq_3)
qed

section \<open>What the pattern finds\<close>

lemma rep_set:
  "set (rep n P s) = {t. \<exists>u. s = u @ t \<and> n \<le> length u \<and> (\<forall>c \<in> set u. P c)}"
proof (induction s arbitrary: n)
  case Nil
  then show ?case by auto
next
  case (Cons c cs)
  show ?case
  proof (intro set_eqI iffI)
    fix t assume "t \<in> set (rep n P (c # cs))"
    then consider "P c" "t \<in> set (rep (n - 1) P cs)" | "n = 0" "t = c # cs"
      by (auto split: if_splits)
    then show "t \<in> {t. \<exists>u. c # cs = u @ t \<and> n \<le> length u \<and> (\<forall>c \<in> set u. P c)}"
    proof cases
      case 1
      then obtain u where "cs = u @ t" "n - 1 \<le> length u" "\<forall>c \<in> set u. P c"
        unfolding Cons.IH by auto
      with 1 have "c # cs = (c # u) @ t \<and> n \<le> length (c # u) \<and> (\<forall>x \<in> set (c # u). P x)"
        by auto
      then show ?thesis by blast
    next
      case 2
      then show ?thesis by auto
    qed
  next
    fix t assume "t \<in> {t. \<exists>u. c # cs = u @ t \<and> n \<le> length u \<and> (\<forall>c \<in> set u. P c)}"
    then obtain u where u: "c # cs = u @ t" "n \<le> length u" "\<forall>c \<in> set u. P c"
      by auto
    show "t \<in> set (rep n P (c # cs))"
    proof (cases u)
      case Nil
      with u have "n = 0" "t = c # cs" by auto
      then show ?thesis by simp
    next
      case (Cons x u')
      with u have "x = c" "cs = u' @ t" "n - 1 \<le> length u'" "\<forall>c \<in> set u'. P c" "P c"
        by auto
      then have "t \<in> set (rep (n - 1) P cs)"
        unfolding Cons.IH by auto
      with \<open>P c\<close> show ?thesis by simp
    qed
  qed
qed

lemma rems_lang: "set (rems r s) = {t. \<exists>u. s = u @ t \<and> u \<in> lang r}"
proof (induction r arbitrary: s)
  case (Atom P)
  show ?case by (cases s) auto
next
  case (Seq a b)
  show ?case
  proof (intro set_eqI iffI)
    fix t assume "t \<in> set (rems (Seq a b) s)"
    then obtain m where "m \<in> set (rems a s)" "t \<in> set (rems b m)"
      by auto
    then obtain u v where "s = u @ m" "u \<in> lang a" "m = v @ t" "v \<in> lang b"
      unfolding Seq.IH by auto
    then have "s = (u @ v) @ t \<and> u @ v \<in> lang (Seq a b)"
      by auto
    then show "t \<in> {t. \<exists>u. s = u @ t \<and> u \<in> lang (Seq a b)}"
      by blast
  next
    fix t assume "t \<in> {t. \<exists>u. s = u @ t \<and> u \<in> lang (Seq a b)}"
    then obtain u v where "s = (u @ v) @ t" "u \<in> lang a" "v \<in> lang b"
      by auto
    then have "v @ t \<in> set (rems a s)" "t \<in> set (rems b (v @ t))"
      unfolding Seq.IH by auto
    then show "t \<in> set (rems (Seq a b) s)"
      by auto
  qed
next
  case (Alt a b)
  then show ?case by auto
next
  case (Opt a)
  then show ?case by auto
next
  case (AtLeast n P)
  show ?case by (simp add: rep_set)
qed

lemma regex_test_lang:
  "regex_test r s \<longleftrightarrow> (\<exists>p u q. s = p @ u @ q \<and> u \<in> lang r)"
proof (induction s)
  case Nil
  have "rems r [] \<noteq> [] \<longleftrightarrow> set (rems r []) \<noteq> {}" by simp
  then show ?case unfolding rems_lang by auto
next
  case (Cons c cs)
  have ne: "rems r (c # cs) \<noteq> [] \<longleftrightarrow> (\<exists>u q. c # cs = u @ q \<and> u \<in> lang r)"
  proof -
    have "rems r (c # cs) \<noteq> [] \<longleftrightarrow> set (rems r (c # cs)) \<noteq> {}" by simp
    then show ?thesis unfolding rems_lang by auto
  qed
  show ?case
  proof
    assume "regex_test r (c # cs)"
    then consider "rems r (c # cs) \<noteq> []" | "regex_test r cs" by auto
    then show "\<exists>p u q. c # cs = p @ u @ q \<and> u \<in> lang r"
    proof cases
      case 1
      then obtain u q where "c # cs = [] @ u @ q" "u \<in> lang r" using ne by auto
      then show ?thesis by blast
    next
      case 2
      then obtain p u q where "cs = p @ u @ q" "u \<in> lang r" using Cons.IH by auto
      then have "c # cs = (c # p) @ u @ q" "u \<in> lang r" by auto
      then show ?thesis by blast
    qed
  next
    assume "\<exists>p u q. c # cs = p @ u @ q \<and> u \<in> lang r"
    then obtain p u q where puq: "c # cs = p @ u @ q" "u \<in> lang r" by auto
    show "regex_test r (c # cs)"
    proof (cases p)
      case Nil
      with puq have "rems r (c # cs) \<noteq> []" using ne by auto
      then show ?thesis by simp
    next
      case (Cons x p')
      with puq have "cs = p' @ u @ q" by simp
      with puq(2) have "regex_test r cs" using Cons.IH by auto
      then show ?thesis by simp
    qed
  qed
qed

lemma in_lang_Seq:
  "w \<in> lang (Seq a b) \<longleftrightarrow> (\<exists>u v. w = u @ v \<and> u \<in> lang a \<and> v \<in> lang b)"
  by auto

lemma in_lang_Atom_Seq:
  "w \<in> lang (Seq (Atom P) b) \<longleftrightarrow> (\<exists>c v. w = c # v \<and> P c \<and> v \<in> lang b)"
proof
  assume "w \<in> lang (Seq (Atom P) b)"
  then obtain u v where "w = u @ v" "u \<in> lang (Atom P)" "v \<in> lang b"
    unfolding in_lang_Seq by blast
  then show "\<exists>c v. w = c # v \<and> P c \<and> v \<in> lang b"
    by auto
next
  assume "\<exists>c v. w = c # v \<and> P c \<and> v \<in> lang b"
  then obtain c v where "w = [c] @ v" "[c] \<in> lang (Atom P)" "v \<in> lang b"
    by auto
  then show "w \<in> lang (Seq (Atom P) b)"
    unfolding in_lang_Seq by blast
qed

lemma in_lang_Atom: "w \<in> lang (Atom P) \<longleftrightarrow> (\<exists>c. w = [c] \<and> P c)"
  by auto

lemma in_lang_AtLeast: "w \<in> lang (AtLeast n P) \<longleftrightarrow> n \<le> length w \<and> (\<forall>c \<in> set w. P c)"
  by simp

lemma phone_lang:
  "u \<in> lang phone_re \<longleftrightarrow>
     (\<exists>pre d run. u = pre @ d # run \<and> (pre = [] \<or> pre = [ch CHR ''+'']) \<and> is_digit d
        \<and> 8 \<le> length run \<and> (\<forall>c \<in> set run. phone_tail c))"
proof
  assume "u \<in> lang phone_re"
  then obtain pre v where "u = pre @ v" "pre \<in> lang (Opt (Atom (lit CHR ''+'')))"
      "v \<in> lang (Seq (Atom is_digit) (AtLeast 8 phone_tail))"
    unfolding phone_re_def in_lang_Seq by blast
  moreover from this obtain d run where "v = d # run" "is_digit d" "run \<in> lang (AtLeast 8 phone_tail)"
    unfolding in_lang_Atom_Seq by blast
  ultimately have "u = pre @ d # run \<and> (pre = [] \<or> pre = [ch CHR ''+'']) \<and> is_digit d
        \<and> 8 \<le> length run \<and> (\<forall>c \<in> set run. phone_tail c)"
    by (auto simp add: lit_def)
  then show "\<exists>pre d run. u = pre @ d # run \<and> (pre = [] \<or> pre = [ch CHR ''+'']) \<and> is_digit d
        \<and> 8 \<le> length run \<and> (\<forall>c \<in> set run. phone_tail c)"
    by blast
next
  assume "\<exists>pre d run. u = pre @ d # run \<and> (pre = [] \<or> pre = [ch CHR ''+'']) \<and> is_digit d
        \<and> 8 \<le> length run \<and> (\<forall>c \<in> set run. phone_tail c)"
  then obtain pre d run where h: "u = pre @ d # run" "pre = [] \<or> pre = [ch CHR ''+'']" "is_digit d"
      "8 \<le> length run" "\<forall>c \<in> set run. phone_tail c"
    by blast
  then have "pre \<in> lang (Opt (Atom (lit CHR ''+'')))"
    by (auto simp add: lit_def)
  moreover from h have "d # run \<in> lang (Seq (Atom is_digit) (AtLeast 8 phone_tail))"
    unfolding in_lang_Atom_Seq in_lang_AtLeast by blast
  ultimately show "u \<in> lang phone_re"
    unfolding phone_re_def in_lang_Seq using h(1) by blast
qed

lemma email_lang:
  "u \<in> lang email_re \<longleftrightarrow>
     (\<exists>l dm tld. u = l @ ch CHR ''@'' # dm @ ch CHR ''.'' # tld
        \<and> l \<noteq> [] \<and> (\<forall>c \<in> set l. email_local c)
        \<and> dm \<noteq> [] \<and> (\<forall>c \<in> set dm. email_domain c)
        \<and> 2 \<le> length tld \<and> (\<forall>c \<in> set tld. is_alpha c))"
proof
  assume "u \<in> lang email_re"
  then obtain l v where 1: "u = l @ v" "l \<in> lang (AtLeast 1 email_local)"
      "v \<in> lang (Seq (Atom (lit CHR ''@'')) (Seq (AtLeast 1 email_domain)
             (Seq (Atom (lit CHR ''.'')) (AtLeast 2 is_alpha))))"
    unfolding email_re_def in_lang_Seq [of u] by blast
  from 1(3) obtain a v2 where 2: "v = a # v2" "lit CHR ''@'' a"
      "v2 \<in> lang (Seq (AtLeast 1 email_domain) (Seq (Atom (lit CHR ''.'')) (AtLeast 2 is_alpha)))"
    unfolding in_lang_Atom_Seq by blast
  from 2(3) obtain dm v3 where 3: "v2 = dm @ v3" "dm \<in> lang (AtLeast 1 email_domain)"
      "v3 \<in> lang (Seq (Atom (lit CHR ''.'')) (AtLeast 2 is_alpha))"
    unfolding in_lang_Seq [of v2] by blast
  from 3(3) obtain b tld where 4: "v3 = b # tld" "lit CHR ''.'' b" "tld \<in> lang (AtLeast 2 is_alpha)"
    unfolding in_lang_Atom_Seq by blast
  from 1 2 3 4 have "u = l @ ch CHR ''@'' # dm @ ch CHR ''.'' # tld
        \<and> l \<noteq> [] \<and> (\<forall>c \<in> set l. email_local c)
        \<and> dm \<noteq> [] \<and> (\<forall>c \<in> set dm. email_domain c)
        \<and> 2 \<le> length tld \<and> (\<forall>c \<in> set tld. is_alpha c)"
    by (auto simp add: lit_def)
  then show "\<exists>l dm tld. u = l @ ch CHR ''@'' # dm @ ch CHR ''.'' # tld
        \<and> l \<noteq> [] \<and> (\<forall>c \<in> set l. email_local c)
        \<and> dm \<noteq> [] \<and> (\<forall>c \<in> set dm. email_domain c)
        \<and> 2 \<le> length tld \<and> (\<forall>c \<in> set tld. is_alpha c)"
    by blast
next
  assume "\<exists>l dm tld. u = l @ ch CHR ''@'' # dm @ ch CHR ''.'' # tld
        \<and> l \<noteq> [] \<and> (\<forall>c \<in> set l. email_local c)
        \<and> dm \<noteq> [] \<and> (\<forall>c \<in> set dm. email_domain c)
        \<and> 2 \<le> length tld \<and> (\<forall>c \<in> set tld. is_alpha c)"
  then obtain l dm tld where h: "u = l @ ch CHR ''@'' # dm @ ch CHR ''.'' # tld"
      "l \<noteq> []" "\<forall>c \<in> set l. email_local c" "dm \<noteq> []" "\<forall>c \<in> set dm. email_domain c"
      "2 \<le> length tld" "\<forall>c \<in> set tld. is_alpha c"
    by blast
  have 4: "ch CHR ''.'' # tld \<in> lang (Seq (Atom (lit CHR ''.'')) (AtLeast 2 is_alpha))"
    unfolding in_lang_Atom_Seq in_lang_AtLeast using h(6,7) by (simp add: lit_def)
  have "dm \<in> lang (AtLeast 1 email_domain)"
    using h(4,5) by (cases dm) simp_all
  with 4 have 3: "dm @ ch CHR ''.'' # tld
      \<in> lang (Seq (AtLeast 1 email_domain) (Seq (Atom (lit CHR ''.'')) (AtLeast 2 is_alpha)))"
    unfolding in_lang_Seq [of "dm @ ch CHR ''.'' # tld"] by blast
  then have 2: "ch CHR ''@'' # dm @ ch CHR ''.'' # tld
      \<in> lang (Seq (Atom (lit CHR ''@'')) (Seq (AtLeast 1 email_domain)
             (Seq (Atom (lit CHR ''.'')) (AtLeast 2 is_alpha))))"
    unfolding in_lang_Atom_Seq [of "ch CHR ''@'' # dm @ ch CHR ''.'' # tld"] by (simp add: lit_def)
  have "l \<in> lang (AtLeast 1 email_local)"
    using h(2,3) by (cases l) simp_all
  with 2 show "u \<in> lang email_re"
    unfolding email_re_def h(1) in_lang_Seq [of "l @ ch CHR ''@'' # dm @ ch CHR ''.'' # tld"]
    by blast
qed

lemma tme_lang:
  "u \<in> lang tme_re \<longleftrightarrow>
     (\<exists>t m e. u = [t, ch CHR ''.'', m, e, ch CHR ''/'']
        \<and> (t = ch CHR ''t'' \<or> t = ch CHR ''T'')
        \<and> (m = ch CHR ''m'' \<or> m = ch CHR ''M'')
        \<and> (e = ch CHR ''e'' \<or> e = ch CHR ''E''))"
  unfolding tme_re_def in_lang_Atom_Seq in_lang_Atom
  by (auto simp add: lit_def lit_i_def)

lemma phone_factor:
  "(\<exists>p u q. s = p @ u @ q \<and> u \<in> lang phone_re) \<longleftrightarrow> phone_like s"
proof
  assume "\<exists>p u q. s = p @ u @ q \<and> u \<in> lang phone_re"
  then obtain p q pre d run where "s = p @ (pre @ d # run) @ q" "is_digit d"
      "8 \<le> length run" "\<forall>c \<in> set run. phone_tail c"
    unfolding phone_lang by blast
  then have "s = (p @ pre) @ d # run @ q \<and> is_digit d \<and> 8 \<le> length run \<and> (\<forall>c \<in> set run. phone_tail c)"
    by simp
  then show "phone_like s"
    unfolding phone_like_def by blast
next
  assume "phone_like s"
  then obtain p d run q where h: "s = p @ d # run @ q" "is_digit d" "8 \<le> length run"
      "\<forall>c \<in> set run. phone_tail c"
    unfolding phone_like_def by blast
  then have "[] @ d # run \<in> lang phone_re"
    unfolding phone_lang by blast
  moreover from h(1) have "s = p @ ([] @ d # run) @ q"
    by simp
  ultimately show "\<exists>p u q. s = p @ u @ q \<and> u \<in> lang phone_re"
    by blast
qed

lemma email_factor:
  "(\<exists>p u q. s = p @ u @ q \<and> u \<in> lang email_re) \<longleftrightarrow> email_like s"
proof
  assume "\<exists>p u q. s = p @ u @ q \<and> u \<in> lang email_re"
  then obtain p q l dm tld where "s = p @ (l @ ch CHR ''@'' # dm @ ch CHR ''.'' # tld) @ q"
      "l \<noteq> []" "\<forall>c \<in> set l. email_local c" "dm \<noteq> []" "\<forall>c \<in> set dm. email_domain c"
      "2 \<le> length tld" "\<forall>c \<in> set tld. is_alpha c"
    unfolding email_lang by blast
  then have "s = p @ l @ ch CHR ''@'' # dm @ ch CHR ''.'' # tld @ q
      \<and> l \<noteq> [] \<and> (\<forall>c \<in> set l. email_local c) \<and> dm \<noteq> [] \<and> (\<forall>c \<in> set dm. email_domain c)
      \<and> 2 \<le> length tld \<and> (\<forall>c \<in> set tld. is_alpha c)"
    by simp
  then show "email_like s"
    unfolding email_like_def by blast
next
  assume "email_like s"
  then obtain p l dm tld q where h: "s = p @ l @ ch CHR ''@'' # dm @ ch CHR ''.'' # tld @ q"
      "l \<noteq> []" "\<forall>c \<in> set l. email_local c" "dm \<noteq> []" "\<forall>c \<in> set dm. email_domain c"
      "2 \<le> length tld" "\<forall>c \<in> set tld. is_alpha c"
    unfolding email_like_def by blast
  then have "l @ ch CHR ''@'' # dm @ ch CHR ''.'' # tld \<in> lang email_re"
    unfolding email_lang by blast
  moreover from h(1) have "s = p @ (l @ ch CHR ''@'' # dm @ ch CHR ''.'' # tld) @ q"
    by simp
  ultimately show "\<exists>p u q. s = p @ u @ q \<and> u \<in> lang email_re"
    by blast
qed

lemma invite_factor:
  "(\<exists>p u q. s = p @ u @ q \<and> u \<in> lang tme_re) \<longleftrightarrow> invite_like s"
  unfolding tme_lang invite_like_def by blast

lemma looksLikePII_iff_like:
  "looksLikePII s \<longleftrightarrow> phone_like s \<or> email_like s \<or> invite_like s"
proof -
  have "looksLikePII s \<longleftrightarrow>
      (\<exists>p u q. s = p @ u @ q \<and> u \<in> lang phone_re)
      \<or> (\<exists>p u q. s = p @ u @ q \<and> u \<in> lang email_re)
      \<or> (\<exists>p u q. s = p @ u @ q \<and> u \<in> lang tme_re)"
    unfolding looksLikePII_def regex_test_lang risky_def lang.simps Un_iff by blast
  then show ?thesis
    unfolding phone_factor email_factor invite_factor .
qed

lemma rep_map:
  "\<forall>c. P (f c) = P c \<Longrightarrow> rep n P (map f s) = map (map f) (rep n P s)"
  by (induction s arbitrary: n) simp_all

lemma rems_map:
  "atoms_respect f r \<Longrightarrow> rems r (map f s) = map (map f) (rems r s)"
proof (induction r arbitrary: s)
  case (Atom P)
  then show ?case by (cases s) simp_all
next
  case (Seq a b)
  then show ?case by (simp add: map_concat comp_def)
next
  case (AtLeast n P)
  then show ?case by (simp add: rep_map)
qed simp_all

lemma regex_test_map:
  "atoms_respect f r \<Longrightarrow> regex_test r (map f s) = regex_test r s"
proof (induction s)
  case Nil
  then show ?case using rems_map [of f r "[]"] by simp
next
  case (Cons c cs)
  then show ?case using rems_map [of f r "c # cs"] by simp
qed

lemma ascii_upper_cases:
  "ascii_upper c = c \<or> (is_lower c \<and> is_upper (ascii_upper c) \<and> ascii_upper c = c - 0x20)"
  unfolding ascii_upper_def is_lower_def is_upper_def
  by (auto simp add: word_le_nat_alt unat_sub)

lemma ascii_upper_classes:
  "is_digit (ascii_upper c) = is_digit c"
  "is_alpha (ascii_upper c) = is_alpha c"
  "is_space (ascii_upper c) = is_space c"
  "is_word (ascii_upper c) = is_word c"
  unfolding ascii_upper_def is_word_def is_alpha_def is_lower_def is_upper_def is_digit_def is_space_def
  by (auto simp add: word_le_nat_alt unat_sub word_unat_eq_iff)

lemma ascii_upper_lits:
  "lit CHR ''+'' (ascii_upper c) = lit CHR ''+'' c"
  "lit CHR ''@'' (ascii_upper c) = lit CHR ''@'' c"
  "lit CHR ''.'' (ascii_upper c) = lit CHR ''.'' c"
  "lit CHR ''/'' (ascii_upper c) = lit CHR ''/'' c"
  "lit_i CHR ''t'' CHR ''T'' (ascii_upper c) = lit_i CHR ''t'' CHR ''T'' c"
  "lit_i CHR ''m'' CHR ''M'' (ascii_upper c) = lit_i CHR ''m'' CHR ''M'' c"
  "lit_i CHR ''e'' CHR ''E'' (ascii_upper c) = lit_i CHR ''e'' CHR ''E'' c"
  unfolding ascii_upper_def lit_def lit_i_def ch_def is_lower_def
  by (auto simp add: word_le_nat_alt unat_sub word_unat_eq_iff)

lemma ascii_upper_tails:
  "phone_tail (ascii_upper c) = phone_tail c"
  "email_local (ascii_upper c) = email_local c"
  "email_domain (ascii_upper c) = email_domain c"
  unfolding phone_tail_def email_local_def email_domain_def ascii_upper_classes
  unfolding ascii_upper_def ch_def is_lower_def
  by (auto simp add: word_le_nat_alt unat_sub word_unat_eq_iff)

lemma risky_respects_upper: "atoms_respect ascii_upper risky"
  by (simp add: risky_def phone_re_def email_re_def tme_re_def
      ascii_upper_classes ascii_upper_lits ascii_upper_tails)

lemma looksLikePII_upper: "looksLikePII (map ascii_upper s) = looksLikePII s"
  unfolding looksLikePII_def by (rule regex_test_map [OF risky_respects_upper])

text \<open>
  Claim C2. As stated the claim fails: a text flagged by the phone alternative need not
  contain nine digits. Amended: \<open>looksLikePII\<close> is true exactly when the text contains a
  digit followed by at least eight characters that are digits, white space, hyphens or
  parentheses, or an email-shaped token \<open>local@domain.tld\<close> with at least two letters
  after the dot, or the invite-link prefix \<open>t.me/\<close>; and texts that differ only in the
  case of ASCII letters get the same answer.
\<close>

theorem looksLikePII_characterised:
  "(looksLikePII s \<longleftrightarrow> phone_like s \<or> email_like s \<or> invite_like s)
   \<and> (map ascii_upper s = map ascii_upper s' \<longrightarrow> looksLikePII s = looksLikePII s')"
proof (intro conjI impI)
  show "looksLikePII s \<longleftrightarrow> phone_like s \<or> email_like s \<or> invite_like s"
    by (rule looksLikePII_iff_like)
  assume "map ascii_upper s = map ascii_upper s'"
  then have "looksLikePII (map ascii_upper s) = looksLikePII (map ascii_upper s')"
    by simp
  then show "looksLikePII s = looksLikePII s'"
    by (simp only: looksLikePII_upper)
qed

text \<open>
  The text \<open>Room 1 -------- is free\<close> is flagged, by the phone alternative alone, and
  contains one digit.
\<close>

theorem looksLikePII_counterexample:
  "looksLikePII (ascii ''Room 1 -------- is free'')
   \<and> regex_test phone_re (ascii ''Room 1 -------- is free'')
   \<and> \<not> regex_test email_re (ascii ''Room 1 -------- is free'')
   \<and> \<not> regex_test tme_re (ascii ''Room 1 -------- is free'')
   \<and> length (filter is_digit (ascii ''Room 1 -------- is free'')) = 1"
  by code_simp

theorem looksLikePII_characterised_witness:
  "looksLikePII (ascii ''Contact me at john@example.com please'')
   \<and> (phone_like (ascii ''Contact me at john@example.com please'')
        \<or> email_like (ascii ''Contact me at john@example.com please'')
        \<or> invite_like (ascii ''Contact me at john@example.com please''))
   \<and> map ascii_upper (ascii ''join T.me/abc now'') = map ascii_upper (ascii ''join t.ME/abc now'')
   \<and> looksLikePII (ascii ''join T.me/abc now'')
   \<and> looksLikePII (ascii ''join t.ME/abc now'')"
proof -
  have h1: "looksLikePII (ascii ''Contact me at john@example.com please'')"
    by code_simp
  have h2: "map ascii_upper (ascii ''join T.me/abc now'') = map ascii_upper (ascii ''join t.ME/abc now'')"
    by code_simp
  have h3: "looksLikePII (ascii ''join T.me/abc now'')"
    by code_simp
  show ?thesis
    using looksLikePII_characterised [where s = "ascii ''Contact me at john@example.com please''"]
      looksLikePII_characterised [where s = "ascii ''join T.me/abc now''"
        and s' = "ascii ''join t.ME/abc now''"]
      h1 h2 h3
    by blast
qed

section \<open>Order of the listing\<close>










end
